theory Spec2Isabelle
  imports Main
begin

section \<open>Data model of \<^verbatim>\<open>quiz/models.py\<close>\<close>

text \<open>
  A Django model instance is a record whose primary key is \<open>None\<close> until the instance is
  saved.  Foreign keys to rows that the contest engine never changes (questions, choices,
  students) are embedded as values; the database is a record of tables, each a list of rows.
  Instants (\<^verbatim>\<open>datetime\<close>) are integers on one common time axis.
\<close>

type_synonym category = string
type_synonym datetime = int

definition RADIO :: category where
  "RADIO = ''R''"

definition BINARY :: category where
  "BINARY = ''B''"

record Question =
  Question_id :: nat
  Question_content :: string
  Question_category :: category

record Choice =
  Choice_id :: nat
  Choice_content :: string
  Choice_correct :: bool
  Choice_question :: nat

record Student =
  Student_user :: nat
  Student_name :: string

record Response =
  Response_id :: "nat option"
  Response_submit_at :: datetime
  Response_student :: Student

record Answer =
  Answer_response :: Response
  Answer_question :: Question
  Answer_choice :: "Choice option"

record DraftResponse =
  DraftResponse_id :: "nat option"
  DraftResponse_student :: Student
  DraftResponse_deadline :: datetime

record DraftAnswer =
  DraftAnswer_response :: "nat option"
  DraftAnswer_question :: Question
  DraftAnswer_choice :: "Choice option"

record PageMeta =
  PageMeta_title :: string

text \<open>
  \<^verbatim>\<open>quiz/constants.py\<close> is deployment configuration; the functions below read it through
  a record of the constants they use.  \<open>SCORE\<close> is a dictionary, kept as the list of
  its items in iteration order.
\<close>

record ConstantsNamespace =
  MAX_TRIES :: int
  SCORE :: "(category \<times> int) list"
  ROUTES :: "string \<rightharpoonup> PageMeta"

record database =
  Response_objects :: "Response list"
  Answer_objects :: "Answer list"
  DraftResponse_objects :: "DraftResponse list"
  DraftAnswer_objects :: "DraftAnswer list"

datatype error = ValueError | KeyError

section \<open>Related managers\<close>

text \<open>
  \<^verbatim>\<open>student.response_set\<close>, \<^verbatim>\<open>response.answer_set\<close> and \<^verbatim>\<open>draft.answer_set\<close> are the
  rows whose foreign key holds the primary key of the instance.
\<close>

definition Student_response_set :: "database \<Rightarrow> Student \<Rightarrow> Response list" where
  "Student_response_set db self =
     filter (\<lambda>r. Student_user (Response_student r) = Student_user self) (Response_objects db)"

definition Response_answer_set :: "database \<Rightarrow> nat \<Rightarrow> Answer list" where
  "Response_answer_set db pk =
     filter (\<lambda>a. Response_id (Answer_response a) = Some pk) (Answer_objects db)"

definition DraftResponse_answer_set :: "database \<Rightarrow> nat \<Rightarrow> DraftAnswer list" where
  "DraftResponse_answer_set db pk =
     filter (\<lambda>a. DraftAnswer_response a = Some pk) (DraftAnswer_objects db)"

section \<open>\<^verbatim>\<open>Response.score\<close>\<close>

text \<open>
  \<^verbatim>\<open>answer_set.filter(question__category=category, choice__correct=True)\<close>: the join on
  \<open>choice\<close> drops the answers whose choice is null.
\<close>

definition chosen_correct :: "Answer \<Rightarrow> bool" where
  "chosen_correct a = (case Answer_choice a of None \<Rightarrow> False | Some ch \<Rightarrow> Choice_correct ch)"

definition filter_category_correct :: "category \<Rightarrow> Answer list \<Rightarrow> Answer list" where
  "filter_category_correct category answers =
     filter (\<lambda>a. Question_category (Answer_question a) = category \<and> chosen_correct a) answers"

text \<open>
  The related manager of an unsaved instance raises \<^verbatim>\<open>ValueError\<close>; a saved response
  sums, over the items of \<open>SCORE\<close>, the weight times the length of the filtered query.
\<close>

definition Response_score :: "ConstantsNamespace \<Rightarrow> database \<Rightarrow> Response \<Rightarrow> error + int" where
  "Response_score constants db self =
     (case Response_id self of
        None \<Rightarrow> Inl ValueError
      | Some pk \<Rightarrow>
          Inr (sum_list (map (\<lambda>(category, score).
                 score * int (length (filter_category_correct category (Response_answer_set db pk))))
               (SCORE constants))))"

text \<open>The weight the dictionary gives a category, and what one answer adds to a score.\<close>

definition weight :: "ConstantsNamespace \<Rightarrow> category \<Rightarrow> int" where
  "weight constants category =
     (case map_of (SCORE constants) category of None \<Rightarrow> 0 | Some score \<Rightarrow> score)"

definition contribution :: "ConstantsNamespace \<Rightarrow> Answer \<Rightarrow> int" where
  "contribution constants a =
     (case Answer_choice a of
        None \<Rightarrow> 0
      | Some ch \<Rightarrow>
          if Choice_correct ch then weight constants (Question_category (Answer_question a))
          else 0)"

section \<open>\<^verbatim>\<open>Student.n_left_tries\<close>\<close>

text \<open>\<^verbatim>\<open>constants.MAX_TRIES - self.response_set.count()\<close>; drafts are not looked at.\<close>

definition Student_n_left_tries :: "ConstantsNamespace \<Rightarrow> database \<Rightarrow> Student \<Rightarrow> int" where
  "Student_n_left_tries constants db self =
     MAX_TRIES constants - int (length (Student_response_set db self))"

section \<open>\<^verbatim>\<open>DraftAnswer.finalize\<close>, \<^verbatim>\<open>DraftResponse.finalize\<close>, \<^verbatim>\<open>DraftResponse.outdated\<close>\<close>

definition DraftAnswer_finalize :: "DraftAnswer \<Rightarrow> Response \<Rightarrow> Answer" where
  "DraftAnswer_finalize self response =
     \<lparr>Answer_response = response,
      Answer_question = DraftAnswer_question self,
      Answer_choice = DraftAnswer_choice self\<rparr>"

text \<open>
  The method reads the database (\<^verbatim>\<open>self.answer_set.all()\<close>) and writes nothing; the state
  is passed through so that this can be stated.  The new \<open>Response\<close> is built before the
  query, and it is unsaved: its primary key is \<open>None\<close>.
\<close>

definition DraftResponse_finalize ::
  "DraftResponse \<Rightarrow> datetime \<Rightarrow> database \<Rightarrow> (error + Response \<times> Answer list) \<times> database" where
  "DraftResponse_finalize self submit_at db =
     (let response = \<lparr>Response_id = None,
                        Response_submit_at = submit_at,
                        Response_student = DraftResponse_student self\<rparr>
      in case DraftResponse_id self of
           None \<Rightarrow> (Inl ValueError, db)
         | Some pk \<Rightarrow>
             (Inr (response,
                   map (\<lambda>a. DraftAnswer_finalize a response) (DraftResponse_answer_set db pk)),
              db))"

text \<open>\<^verbatim>\<open>timezone.now() > self.deadline\<close>, the clock read being the argument \<open>now\<close>.\<close>

definition DraftResponse_outdated :: "datetime \<Rightarrow> DraftResponse \<Rightarrow> bool" where
  "DraftResponse_outdated now self = (now > DraftResponse_deadline self)"

section \<open>\<^verbatim>\<open>templatetags/current_page.py\<close>\<close>

record HttpRequest =
  HttpRequest_path_info :: string

record HTTPStatus =
  HTTPStatus_value :: int
  HTTPStatus_phrase :: string

text \<open>
  The template context is a dictionary; the tag reads three of its keys, each of which
  may be missing.
\<close>

record Context =
  Context_request :: "HttpRequest option"
  Context_constants :: "ConstantsNamespace option"
  Context_response_status :: "HTTPStatus option"

text \<open>
  \<^verbatim>\<open>django.urls.resolve\<close> depends on the URL configuration, which is a parameter here: it
  returns a match, of which the tag reads the view name, or raises \<^verbatim>\<open>Resolver404\<close>.
\<close>

datatype resolve_outcome = Resolver404 | ResolverMatch string

text \<open>Python's \<^verbatim>\<open>str\<close> of an integer, for the f-string.\<close>

definition digit_char :: "nat \<Rightarrow> char" where
  "digit_char d = char_of (of_char (CHR ''0'') + d)"

fun str_nat :: "nat \<Rightarrow> string" where
  "str_nat n = (if n < 10 then [digit_char n] else str_nat (n div 10) @ [digit_char (n mod 10)])"

definition str_int :: "int \<Rightarrow> string" where
  "str_int i = (if i < 0 then CHR ''-'' # str_nat (nat (- i)) else str_nat (nat i))"

text \<open>The first step of the docstring: the title that \<open>constants.ROUTES\<close> gives the page.\<close>

definition route_title :: "(string \<Rightarrow> resolve_outcome) \<Rightarrow> HttpRequest \<Rightarrow> Context \<Rightarrow> string option" where
  "route_title resolve request context =
     (case Context_constants context of
        None \<Rightarrow> None
      | Some constants \<Rightarrow>
          (case resolve (HttpRequest_path_info request) of
             Resolver404 \<Rightarrow> None
           | ResolverMatch view_name \<Rightarrow>
               (case ROUTES constants view_name of
                  None \<Rightarrow> None
                | Some page \<Rightarrow> Some (PageMeta_title page))))"

text \<open>
  \<open>default_arg\<close> (the parameter \<^verbatim>\<open>default\<close>) is \<open>None\<close> when the tag is used without
  the argument, which then is the empty string.  \<^verbatim>\<open>context["request"]\<close> comes first and raises \<^verbatim>\<open>KeyError\<close> when the key is
  missing.
\<close>

definition current_page_title ::
  "(string \<Rightarrow> resolve_outcome) \<Rightarrow> Context \<Rightarrow> string option \<Rightarrow> error + string" where
  "current_page_title resolve context default_arg =
     (case Context_request context of
        None \<Rightarrow> Inl KeyError
      | Some request \<Rightarrow>
          (case route_title resolve request context of
             Some title \<Rightarrow> Inr title
           | None \<Rightarrow>
               (case Context_response_status context of
                  Some status \<Rightarrow>
                    Inr (str_int (HTTPStatus_value status) @ '' '' @ HTTPStatus_phrase status)
                | None \<Rightarrow> Inr (case default_arg of None \<Rightarrow> [] | Some d \<Rightarrow> d))))"

section \<open>Question selection and answer updates (the views)\<close>

text \<open>
  \<^verbatim>\<open>quiz/views.py\<close> is not among the sources; \<^verbatim>\<open>tests.py\<close> imports \<open>select_questions\<close> from it
  and drives its update view.  The definitions of this section follow the specification.
\<close>

text \<open>
  Modelled from the spec: the error taxonomy of section 7, as far as the operations below
  raise it.
\<close>

datatype core_error =
  InsufficientPopulationError | ExpiredError | UnknownQuestionError | UnknownChoiceError
  | MalformedInputError

text \<open>
  Modelled from the spec: the classification of a failure at the boundary (section 6 and
  section 7).
\<close>

datatype classification = BadRequest | NotFound | Forbidden | Fatal

fun classify :: "core_error \<Rightarrow> classification" where
  "classify MalformedInputError = BadRequest"
| "classify UnknownQuestionError = NotFound"
| "classify UnknownChoiceError = NotFound"
| "classify ExpiredError = Forbidden"
| "classify InsufficientPopulationError = Fatal"

text \<open>
  Modelled from the spec: sampling \<open>k\<close> distinct elements without replacement (section
  4.1), the random source being the list \<open>rs\<close> of numbers it hands out (0 once the list is
  used up).  Each step takes the element at a random position out of what is left of the
  population.
\<close>

fun sample_loop :: "nat list \<Rightarrow> 'a list \<Rightarrow> nat \<Rightarrow> 'a list" where
  "sample_loop rs population 0 = []"
| "sample_loop rs population (Suc k) =
     (if population = [] then []
      else let i = (case rs of [] \<Rightarrow> 0 | r # _ \<Rightarrow> r) mod length population
           in population ! i # sample_loop (tl rs) (take i population @ drop (Suc i) population) k)"

text \<open>
  Modelled from the spec: the sample fails with \<open>InsufficientPopulationError\<close> when the
  population is smaller than the quota (section 4.1).
\<close>

definition sample :: "nat list \<Rightarrow> 'a list \<Rightarrow> nat \<Rightarrow> core_error + 'a list" where
  "sample rs population k =
     (if length population < k then Inl InsufficientPopulationError
      else Inr (sample_loop rs population k))"

text \<open>Modelled from the spec: all questions of one category in the bank (section 4.1).\<close>

definition of_category :: "category \<Rightarrow> Question list \<Rightarrow> Question list" where
  "of_category category questions = filter (\<lambda>q. Question_category q = category) questions"

text \<open>
  Modelled from the spec: \<open>draw\<close> of section 4.1 (\<open>select_questions\<close> of the views).  For
  each category of the quotas in turn it samples the quota from the bank's questions of
  that category, and joins the samples; the first failing sample is the failure of the
  draw.  \<open>quotas\<close> is the dictionary of quotas as the list of its items.
\<close>

fun draw :: "nat list \<Rightarrow> Question list \<Rightarrow> (category \<times> nat) list \<Rightarrow> core_error + Question list" where
  "draw rs bank [] = Inr []"
| "draw rs bank ((category, quota) # quotas) =
     (case sample rs (of_category category bank) quota of
        Inl e \<Rightarrow> Inl e
      | Inr drawn \<Rightarrow>
          (case draw (drop quota rs) bank quotas of
             Inl e \<Rightarrow> Inl e
           | Inr rest \<Rightarrow> Inr (drawn @ rest)))"

text \<open>
  Modelled from the spec: an identifier as the boundary hands it over (section 4.3), either
  malformed or well-formed with its number.
\<close>

datatype 'a parsed = Malformed | WellFormed 'a

text \<open>
  Modelled from the spec: the student's draft, of which there is at most one (section 3);
  in the sources, the reverse accessor \<^verbatim>\<open>student.draft_response\<close> of the one-to-one field.
\<close>

definition Student_draft_response :: "database \<Rightarrow> Student \<Rightarrow> DraftResponse option" where
  "Student_draft_response db self =
     find (\<lambda>d. Student_user (DraftResponse_student d) = Student_user self)
       (DraftResponse_objects db)"

text \<open>Modelled from the spec: the draft answer of a draft for a question (section 3).\<close>

definition targets :: "DraftResponse \<Rightarrow> int \<Rightarrow> DraftAnswer \<Rightarrow> bool" where
  "targets draft questionId a =
     (DraftAnswer_response a = DraftResponse_id draft
      \<and> int (Question_id (DraftAnswer_question a)) = questionId)"

text \<open>
  Modelled from the spec: the effect of \<open>update\<close> (section 4.3), which overwrites the choice
  of that draft answer and touches no other.
\<close>

definition overwrite_choice ::
  "DraftResponse \<Rightarrow> int \<Rightarrow> Choice option \<Rightarrow> database \<Rightarrow> database" where
  "overwrite_choice draft questionId choice db =
     db\<lparr>DraftAnswer_objects :=
          map (\<lambda>a. if targets draft questionId a then a\<lparr>DraftAnswer_choice := choice\<rparr> else a)
            (DraftAnswer_objects db)\<rparr>"

text \<open>
  Modelled from the spec: \<open>update(student, questionId, choiceIdOrNone)\<close> of section 4.3
  (the update view, which is not in the sources), with its preconditions in the order the
  specification lists them: the draft exists and is not expired, by
  \<open>DraftResponse.outdated\<close> of the sources, else \<open>ExpiredError\<close>; the identifiers are
  well-formed; the question is one of the draft; the choice, unless none, belongs to that
  question.  \<open>choices\<close> are the choices of the question bank.  The result is the outcome
  together with the database after the call.
\<close>

definition update ::
  "Choice list \<Rightarrow> datetime \<Rightarrow> Student \<Rightarrow> int parsed \<Rightarrow> int option parsed \<Rightarrow> database
     \<Rightarrow> (core_error + unit) \<times> database" where
  "update choices now student questionId choiceIdOrNone db =
     (case Student_draft_response db student of
        None \<Rightarrow> (Inl ExpiredError, db)
      | Some draft \<Rightarrow>
          if DraftResponse_outdated now draft then (Inl ExpiredError, db)
          else
            (case (questionId, choiceIdOrNone) of
               (WellFormed q, WellFormed c) \<Rightarrow>
                 (case find (targets draft q) (DraftAnswer_objects db) of
                    None \<Rightarrow> (Inl UnknownQuestionError, db)
                  | Some answer \<Rightarrow>
                      (case c of
                         None \<Rightarrow> (Inr (), overwrite_choice draft q None db)
                       | Some choiceId \<Rightarrow>
                           (case find (\<lambda>ch. int (Choice_id ch) = choiceId
                                           \<and> Choice_question ch = Question_id (DraftAnswer_question answer))
                                   choices of
                              None \<Rightarrow> (Inl UnknownChoiceError, db)
                            | Some choice \<Rightarrow> (Inr (), overwrite_choice draft q (Some choice) db))))
             | _ \<Rightarrow> (Inl MalformedInputError, db)))"

section \<open>Example data\<close>

text \<open>
  The example of the specification: weights 10 for single choice and 5 for true/false,
  one student with a finalized response (two single-choice questions answered correctly,
  the true/false question answered incorrectly) and a draft with the deadline 100.
\<close>

definition example_constants :: ConstantsNamespace where
  "example_constants =
     \<lparr>MAX_TRIES = 3,
      SCORE = [(RADIO, 10), (BINARY, 5)],
      ROUTES = [''quiz:index'' \<mapsto> \<lparr>PageMeta_title = ''Home''\<rparr>]\<rparr>"

definition example_student :: Student where
  "example_student = \<lparr>Student_user = 1, Student_name = ''Rei''\<rparr>"

definition question_1 :: Question where
  "question_1 = \<lparr>Question_id = 1, Question_content = ''Characters'', Question_category = RADIO\<rparr>"

definition question_2 :: Question where
  "question_2 = \<lparr>Question_id = 2, Question_content = ''Evangelions'', Question_category = RADIO\<rparr>"

definition question_3 :: Question where
  "question_3 = \<lparr>Question_id = 3, Question_content = ''Angels'', Question_category = BINARY\<rparr>"

definition choice_1 :: Choice where
  "choice_1 = \<lparr>Choice_id = 1, Choice_content = ''Shinji Ikari'', Choice_correct = True,
               Choice_question = 1\<rparr>"

definition choice_2 :: Choice where
  "choice_2 = \<lparr>Choice_id = 2, Choice_content = ''Evangelion Unit-00'', Choice_correct = True,
               Choice_question = 2\<rparr>"

definition choice_3 :: Choice where
  "choice_3 = \<lparr>Choice_id = 3, Choice_content = ''Sachiel'', Choice_correct = False,
               Choice_question = 3\<rparr>"

definition example_response :: Response where
  "example_response =
     \<lparr>Response_id = Some 1, Response_submit_at = 90, Response_student = example_student\<rparr>"

definition example_draft :: DraftResponse where
  "example_draft =
     \<lparr>DraftResponse_id = Some 1, DraftResponse_student = example_student,
      DraftResponse_deadline = 100\<rparr>"

definition example_db :: database where
  "example_db =
     \<lparr>Response_objects = [example_response],
      Answer_objects =
        [\<lparr>Answer_response = example_response, Answer_question = question_1,
          Answer_choice = Some choice_1\<rparr>,
         \<lparr>Answer_response = example_response, Answer_question = question_2,
          Answer_choice = Some choice_2\<rparr>,
         \<lparr>Answer_response = example_response, Answer_question = question_3,
          Answer_choice = Some choice_3\<rparr>],
      DraftResponse_objects = [example_draft],
      DraftAnswer_objects =
        [\<lparr>DraftAnswer_response = Some 1, DraftAnswer_question = question_1,
          DraftAnswer_choice = Some choice_1\<rparr>,
         \<lparr>DraftAnswer_response = Some 1, DraftAnswer_question = question_3,
          DraftAnswer_choice = None\<rparr>]\<rparr>"

definition example_bank :: "Question list" where
  "example_bank = [question_1, question_2, question_3]"

definition example_quotas :: "(category \<times> nat) list" where
  "example_quotas = [(RADIO, 2), (BINARY, 1)]"

definition example_choices :: "Choice list" where
  "example_choices = [choice_1, choice_2, choice_3]"

text \<open>
  A database shared by two students: each has a finalized response and a draft, and the
  rows of the two are interleaved in the tables of answers and of draft answers.
\<close>

definition other_student :: Student where
  "other_student = \<lparr>Student_user = 2, Student_name = ''Asuka''\<rparr>"

definition choice_4 :: Choice where
  "choice_4 = \<lparr>Choice_id = 4, Choice_content = ''Adam'', Choice_correct = True,
               Choice_question = 3\<rparr>"

definition other_response :: Response where
  "other_response =
     \<lparr>Response_id = Some 2, Response_submit_at = 95, Response_student = other_student\<rparr>"

definition other_draft :: DraftResponse where
  "other_draft =
     \<lparr>DraftResponse_id = Some 2, DraftResponse_student = other_student,
      DraftResponse_deadline = 200\<rparr>"

definition shared_db :: database where
  "shared_db =
     \<lparr>Response_objects = [example_response, other_response],
      Answer_objects =
        [\<lparr>Answer_response = example_response, Answer_question = question_1,
          Answer_choice = Some choice_1\<rparr>,
         \<lparr>Answer_response = other_response, Answer_question = question_3,
          Answer_choice = Some choice_4\<rparr>,
         \<lparr>Answer_response = example_response, Answer_question = question_2,
          Answer_choice = Some choice_2\<rparr>,
         \<lparr>Answer_response = other_response, Answer_question = question_1,
          Answer_choice = None\<rparr>,
         \<lparr>Answer_response = example_response, Answer_question = question_3,
          Answer_choice = Some choice_3\<rparr>],
      DraftResponse_objects = [example_draft, other_draft],
      DraftAnswer_objects =
        [\<lparr>DraftAnswer_response = Some 1, DraftAnswer_question = question_1,
          DraftAnswer_choice = Some choice_1\<rparr>,
         \<lparr>DraftAnswer_response = Some 2, DraftAnswer_question = question_2,
          DraftAnswer_choice = Some choice_2\<rparr>,
         \<lparr>DraftAnswer_response = Some 1, DraftAnswer_question = question_3,
          DraftAnswer_choice = None\<rparr>]\<rparr>"

lemmas shared_defs =
  other_student_def choice_4_def other_response_def other_draft_def shared_db_def

lemmas example_defs =
  example_constants_def example_student_def question_1_def question_2_def question_3_def
  choice_1_def choice_2_def choice_3_def example_response_def example_draft_def example_db_def
  RADIO_def BINARY_def

definition example_resolve :: "string \<Rightarrow> resolve_outcome" where
  "example_resolve path = (if path = ''/'' then ResolverMatch ''quiz:index'' else Resolver404)"

definition example_context :: Context where
  "example_context =
     \<lparr>Context_request = Some \<lparr>HttpRequest_path_info = ''/''\<rparr>,
      Context_constants = Some example_constants,
      Context_response_status = None\<rparr>"

definition not_found_context :: Context where
  "not_found_context =
     \<lparr>Context_request = Some \<lparr>HttpRequest_path_info = ''/nowhere''\<rparr>,
      Context_constants = Some example_constants,
      Context_response_status = Some \<lparr>HTTPStatus_value = 404, HTTPStatus_phrase = ''Not Found''\<rparr>\<rparr>"

definition empty_context :: Context where
  "empty_context =
     \<lparr>Context_request = None, Context_constants = None, Context_response_status = None\<rparr>"

section \<open>Scoring\<close>

lemma map_of_item:
  assumes "distinct (map fst kvs)" and "(k, v) \<in> set kvs"
  shows "map_of kvs k = Some v"
  using assms by simp

lemma sum_items_as_keys:
  assumes "distinct (map fst kvs)"
  shows "sum_list (map (\<lambda>(k, v). v * f k) kvs)
       = (\<Sum>k\<in>set (map fst kvs). (case map_of kvs k of None \<Rightarrow> 0 | Some v \<Rightarrow> v) * (f k :: int))"
proof -
  let ?g = "\<lambda>k. (case map_of kvs k of None \<Rightarrow> 0 | Some v \<Rightarrow> v) * f k"
  have eq: "map (\<lambda>(k, v). v * f k) kvs = map ?g (map fst kvs)"
    using assms by (auto simp: map_of_item)
  have "sum_list (map ?g (map fst kvs)) = sum ?g (set (map fst kvs))"
    using assms by (rule sum_list_distinct_conv_sum_set)
  then show ?thesis unfolding eq .
qed

lemma sum_items_single:
  assumes "distinct (map fst kvs)"
  shows "sum_list (map (\<lambda>(k, v). if k = c then v else (0::int)) kvs)
       = (case map_of kvs c of None \<Rightarrow> 0 | Some v \<Rightarrow> v)"
  using assms
proof (induction kvs)
  case Nil
  show ?case by simp
next
  case (Cons kv kvs)
  obtain k v where kv: "kv = (k, v)" by (cases kv)
  have rest: "sum_list (map (\<lambda>(k, v). if k = c then v else 0) kvs)
            = (case map_of kvs c of None \<Rightarrow> 0 | Some v \<Rightarrow> v)"
    using Cons by simp
  show ?case
  proof (cases "k = c")
    case True
    then have "c \<notin> fst ` set kvs" using Cons.prems kv by auto
    then have "map_of kvs c = None" by (simp add: map_of_eq_None_iff)
    with True rest kv show ?thesis by simp
  next
    case False
    with rest kv show ?thesis by simp
  qed
qed

lemma sum_items_by_answer:
  assumes "distinct (map fst kvs)"
  shows "sum_list (map (\<lambda>(k, v). v * int (length (filter (\<lambda>a. cat a = k \<and> ok a) xs))) kvs)
       = sum_list (map (\<lambda>a. if ok a then (case map_of kvs (cat a) of None \<Rightarrow> 0 | Some v \<Rightarrow> v) else 0) xs)"
proof (induction xs)
  case Nil
  show ?case by (induction kvs) auto
next
  case (Cons x xs)
  have split: "sum_list (map (\<lambda>(k, v). v * int (length (filter (\<lambda>a. cat a = k \<and> ok a) (x # xs)))) kvs)
      = sum_list (map (\<lambda>(k, v). if k = cat x \<and> ok x then v else 0) kvs)
      + sum_list (map (\<lambda>(k, v). v * int (length (filter (\<lambda>a. cat a = k \<and> ok a) xs))) kvs)"
    by (induction kvs) (auto simp: algebra_simps)
  have one: "sum_list (map (\<lambda>(k, v). if k = cat x \<and> ok x then v else 0) kvs)
      = (if ok x then (case map_of kvs (cat x) of None \<Rightarrow> 0 | Some v \<Rightarrow> v) else 0)"
  proof (cases "ok x")
    case True
    then show ?thesis using sum_items_single [OF assms, of "cat x"] by simp
  next
    case False
    then show ?thesis by (induction kvs) auto
  qed
  show ?case using split one Cons.IH by simp
qed

lemma sum_items_nonneg:
  assumes "\<forall>(k, v)\<in>set kvs. (0::int) \<le> v"
  shows "0 \<le> sum_list (map (\<lambda>(k, v). v * int (f k)) kvs)"
  using assms by (induction kvs) auto

text \<open>
  C1.  For a saved (finalized) response with primary key \<open>pk\<close>, with \<open>SCORE\<close> a dictionary
  (no key twice), the score is the sum over the categories of the category's weight times
  the number of rows of the answer table that belong to this response, are of that
  category and have a chosen choice marked correct.  It is also the sum, over the rows of
  the answer table that belong to this response, of each answer's contribution, which is
  the weight of its category for a correct choice and zero for no choice or an incorrect
  choice; so, the configured weights not being negative, the score is not negative.
\<close>

theorem Response_score_weighted_count:
  assumes "Response_id self = Some pk"
    and "distinct (map fst (SCORE constants))"
    and "\<forall>(category, score)\<in>set (SCORE constants). 0 \<le> score"
  shows "Response_score constants db self =
           Inr (\<Sum>category\<in>set (map fst (SCORE constants)).
                  weight constants category
                  * int (length (filter
                      (\<lambda>a. Response_id (Answer_response a) = Some pk
                           \<and> Question_category (Answer_question a) = category
                           \<and> (\<exists>ch. Answer_choice a = Some ch \<and> Choice_correct ch))
                      (Answer_objects db))))
       \<and> Response_score constants db self =
           Inr (sum_list (map (contribution constants)
                  (filter (\<lambda>a. Response_id (Answer_response a) = Some pk) (Answer_objects db))))
       \<and> (\<forall>a. Answer_choice a = None \<longrightarrow> contribution constants a = 0)
       \<and> (\<forall>a ch. Answer_choice a = Some ch \<and> \<not> Choice_correct ch \<longrightarrow> contribution constants a = 0)
       \<and> (\<forall>a ch. Answer_choice a = Some ch \<and> Choice_correct ch
            \<longrightarrow> contribution constants a = weight constants (Question_category (Answer_question a)))
       \<and> (\<exists>v. Response_score constants db self = Inr v \<and> 0 \<le> v)"
proof -
  let ?mine = "\<lambda>a. Response_id (Answer_response a) = Some pk"
  let ?xs = "filter ?mine (Answer_objects db)"
  let ?s = "sum_list (map (\<lambda>(category, score).
              score * int (length (filter_category_correct category ?xs))) (SCORE constants))"
  have val: "Response_score constants db self = Inr ?s"
    using assms(1) by (simp add: Response_score_def Response_answer_set_def)
  have correct: "chosen_correct a \<longleftrightarrow> (\<exists>ch. Answer_choice a = Some ch \<and> Choice_correct ch)" for a
    by (cases "Answer_choice a") (simp_all add: chosen_correct_def)
  have rows: "filter_category_correct category ?xs
      = filter (\<lambda>a. ?mine a \<and> Question_category (Answer_question a) = category
                   \<and> (\<exists>ch. Answer_choice a = Some ch \<and> Choice_correct ch))
          (Answer_objects db)" for category
    unfolding filter_category_correct_def filter_filter
    by (rule filter_cong) (auto simp: correct)
  have by_cat: "?s = (\<Sum>category\<in>set (map fst (SCORE constants)).
                  weight constants category * int (length (filter_category_correct category ?xs)))"
    unfolding weight_def
    by (rule sum_items_as_keys [OF assms(2), of "\<lambda>c. int (length (filter_category_correct c ?xs))"])
  have each: "contribution constants a
      = (if chosen_correct a
         then (case map_of (SCORE constants) (Question_category (Answer_question a)) of
                 None \<Rightarrow> 0 | Some v \<Rightarrow> v)
         else 0)" for a
    by (cases "Answer_choice a") (simp_all add: contribution_def chosen_correct_def weight_def)
  have "?s = sum_list (map (\<lambda>a. if chosen_correct a
         then (case map_of (SCORE constants) (Question_category (Answer_question a)) of
                 None \<Rightarrow> 0 | Some v \<Rightarrow> v)
         else 0) ?xs)"
    unfolding filter_category_correct_def
    by (rule sum_items_by_answer [OF assms(2)])
  then have by_ans: "?s = sum_list (map (contribution constants) ?xs)"
    by (simp only: each [symmetric])
  have nonneg: "0 \<le> ?s"
    by (rule sum_items_nonneg [OF assms(3)])
  have none: "\<forall>a. Answer_choice a = None \<longrightarrow> contribution constants a = 0"
    by (simp add: contribution_def)
  have wrong: "\<forall>a ch. Answer_choice a = Some ch \<and> \<not> Choice_correct ch \<longrightarrow> contribution constants a = 0"
    by (simp add: contribution_def)
  have right: "\<forall>a ch. Answer_choice a = Some ch \<and> Choice_correct ch
      \<longrightarrow> contribution constants a = weight constants (Question_category (Answer_question a))"
    by (simp add: contribution_def)
  from by_cat have by_cat': "?s = (\<Sum>category\<in>set (map fst (SCORE constants)).
      weight constants category
      * int (length (filter
          (\<lambda>a. ?mine a \<and> Question_category (Answer_question a) = category
               \<and> (\<exists>ch. Answer_choice a = Some ch \<and> Choice_correct ch))
          (Answer_objects db))))"
    by (simp only: rows)
  have first: "Response_score constants db self =
      Inr (\<Sum>category\<in>set (map fst (SCORE constants)).
        weight constants category
        * int (length (filter
            (\<lambda>a. ?mine a \<and> Question_category (Answer_question a) = category
                 \<and> (\<exists>ch. Answer_choice a = Some ch \<and> Choice_correct ch))
            (Answer_objects db))))"
    using val by_cat' by (simp only:)
  have second: "Response_score constants db self = Inr (sum_list (map (contribution constants) ?xs))"
    using val by_ans by (simp only:)
  have third: "\<exists>v. Response_score constants db self = Inr v \<and> 0 \<le> v"
    using val nonneg by blast
  from first second none wrong right third show ?thesis by blast
qed

text \<open>
  In the shared database the first response scores 20 (both single-choice answers correct,
  the true/false answer incorrect) and the second scores 5; each sum runs over the rows of
  its own response only.
\<close>

theorem Response_score_weighted_count_witness:
  "Response_id example_response = Some 1
   \<and> Response_id other_response = Some 2
   \<and> distinct (map fst (SCORE example_constants))
   \<and> Response_score example_constants shared_db example_response = Inr 20
   \<and> Response_score example_constants shared_db other_response = Inr 5
   \<and> sum_list (map (contribution example_constants)
        (filter (\<lambda>a. Response_id (Answer_response a) = Some 1) (Answer_objects shared_db))) = 20
   \<and> sum_list (map (contribution example_constants)
        (filter (\<lambda>a. Response_id (Answer_response a) = Some 2) (Answer_objects shared_db))) = 5
   \<and> sum_list (map (contribution example_constants) (Answer_objects shared_db)) = 25"
proof -
  have saved: "Response_id example_response = Some 1"
    by (simp add: example_response_def)
  have saved': "Response_id other_response = Some 2"
    by (simp add: other_response_def)
  have keys: "distinct (map fst (SCORE example_constants))"
    by (simp add: example_constants_def RADIO_def BINARY_def)
  have weights: "\<forall>(category, score)\<in>set (SCORE example_constants). 0 \<le> score"
    by (simp add: example_constants_def)
  have mine: "sum_list (map (contribution example_constants)
        (filter (\<lambda>a. Response_id (Answer_response a) = Some 1) (Answer_objects shared_db))) = 20"
    by (simp add: contribution_def weight_def shared_defs example_defs)
  have theirs: "sum_list (map (contribution example_constants)
        (filter (\<lambda>a. Response_id (Answer_response a) = Some 2) (Answer_objects shared_db))) = 5"
    by (simp add: contribution_def weight_def shared_defs example_defs)
  have whole: "sum_list (map (contribution example_constants) (Answer_objects shared_db)) = 25"
    by (simp add: contribution_def weight_def shared_defs example_defs)
  from Response_score_weighted_count [OF saved keys weights, of shared_db]
  have "Response_score example_constants shared_db example_response = Inr (sum_list
      (map (contribution example_constants)
        (filter (\<lambda>a. Response_id (Answer_response a) = Some 1) (Answer_objects shared_db))))"
    by blast
  then have twenty: "Response_score example_constants shared_db example_response = Inr 20"
    by (simp only: mine)
  from Response_score_weighted_count [OF saved' keys weights, of shared_db]
  have "Response_score example_constants shared_db other_response = Inr (sum_list
      (map (contribution example_constants)
        (filter (\<lambda>a. Response_id (Answer_response a) = Some 2) (Answer_objects shared_db))))"
    by blast
  then have five: "Response_score example_constants shared_db other_response = Inr 5"
    by (simp only: theirs)
  from saved saved' keys twenty five mine theirs whole show ?thesis by blast
qed

section \<open>Finalization\<close>

text \<open>
  C3.  For every saved draft with primary key \<open>pk\<close>, \<open>finalize\<close> returns a \<open>Response\<close> owned
  by the draft's student with the given submission instant, and one \<open>Answer\<close> per row of
  the draft-answer table that belongs to this draft, in the order of the table, each with
  the question and the choice (none included) of its \<open>DraftAnswer\<close> and each pointing to
  the returned \<open>Response\<close>; draft answers of other drafts give no answer.
\<close>

theorem DraftResponse_finalize_answers:
  assumes "DraftResponse_id self = Some pk"
  shows "\<exists>response answers.
           fst (DraftResponse_finalize self submit_at db) = Inr (response, answers)
         \<and> Response_student response = DraftResponse_student self
         \<and> Response_submit_at response = submit_at
         \<and> length answers
             = length (filter (\<lambda>d. DraftAnswer_response d = Some pk) (DraftAnswer_objects db))
         \<and> map (\<lambda>a. (Answer_question a, Answer_choice a)) answers
             = map (\<lambda>d. (DraftAnswer_question d, DraftAnswer_choice d))
                 (filter (\<lambda>d. DraftAnswer_response d = Some pk) (DraftAnswer_objects db))
         \<and> (\<forall>a\<in>set answers. Answer_response a = response)"
  using assms
  by (simp add: DraftResponse_finalize_def DraftAnswer_finalize_def DraftResponse_answer_set_def
      Let_def comp_def)

text \<open>
  In the shared database, whose draft-answer table has three rows, the first draft gives
  the two answers of its own rows and the second draft the one answer of its row.
\<close>

theorem DraftResponse_finalize_answers_witness:
  "DraftResponse_id example_draft = Some 1
   \<and> DraftResponse_id other_draft = Some 2
   \<and> length (DraftAnswer_objects shared_db) = 3
   \<and> (\<exists>response answers.
         fst (DraftResponse_finalize example_draft 50 shared_db) = Inr (response, answers)
       \<and> Response_student response = example_student
       \<and> Response_submit_at response = 50
       \<and> length answers = 2
       \<and> map (\<lambda>a. (Answer_question a, Answer_choice a)) answers
           = [(question_1, Some choice_1), (question_3, None)])
   \<and> (\<exists>response answers.
         fst (DraftResponse_finalize other_draft 60 shared_db) = Inr (response, answers)
       \<and> Response_student response = other_student
       \<and> Response_submit_at response = 60
       \<and> length answers = 1
       \<and> map (\<lambda>a. (Answer_question a, Answer_choice a)) answers
           = [(question_2, Some choice_2)])"
proof -
  have saved: "DraftResponse_id example_draft = Some 1"
    by (simp add: example_draft_def)
  have saved': "DraftResponse_id other_draft = Some 2"
    by (simp add: other_draft_def)
  have table: "length (DraftAnswer_objects shared_db) = 3"
    by (simp add: shared_db_def)
  have rows: "filter (\<lambda>d. DraftAnswer_response d = Some 1) (DraftAnswer_objects shared_db) =
      [\<lparr>DraftAnswer_response = Some 1, DraftAnswer_question = question_1,
        DraftAnswer_choice = Some choice_1\<rparr>,
       \<lparr>DraftAnswer_response = Some 1, DraftAnswer_question = question_3,
        DraftAnswer_choice = None\<rparr>]"
    by (simp add: shared_db_def)
  have rows': "filter (\<lambda>d. DraftAnswer_response d = Some 2) (DraftAnswer_objects shared_db) =
      [\<lparr>DraftAnswer_response = Some 2, DraftAnswer_question = question_2,
        DraftAnswer_choice = Some choice_2\<rparr>]"
    by (simp add: shared_db_def)
  have student: "DraftResponse_student example_draft = example_student"
    by (simp add: example_draft_def)
  have student': "DraftResponse_student other_draft = other_student"
    by (simp add: other_draft_def)
  have first: "\<exists>response answers.
         fst (DraftResponse_finalize example_draft 50 shared_db) = Inr (response, answers)
       \<and> Response_student response = example_student
       \<and> Response_submit_at response = 50
       \<and> length answers = 2
       \<and> map (\<lambda>a. (Answer_question a, Answer_choice a)) answers
           = [(question_1, Some choice_1), (question_3, None)]"
    using DraftResponse_finalize_answers [OF saved, of 50 shared_db]
    unfolding rows student by auto
  have second: "\<exists>response answers.
         fst (DraftResponse_finalize other_draft 60 shared_db) = Inr (response, answers)
       \<and> Response_student response = other_student
       \<and> Response_submit_at response = 60
       \<and> length answers = 1
       \<and> map (\<lambda>a. (Answer_question a, Answer_choice a)) answers
           = [(question_2, Some choice_2)]"
    using DraftResponse_finalize_answers [OF saved', of 60 shared_db]
    unfolding rows' student' by auto
  from saved saved' table first second show ?thesis by blast
qed




section \<open>Remaining tries\<close>

text \<open>
  C7.  The remaining tries are \<open>MAX_TRIES\<close> minus the number of the student's finalized
  responses; the tables of drafts and draft answers do not enter the count, whatever they
  hold; and the remaining tries are positive, which is when a new attempt may start,
  exactly when the number of finalized responses is below \<open>MAX_TRIES\<close>.
\<close>

theorem Student_n_left_tries_counts_responses:
  "Student_n_left_tries constants db self =
     MAX_TRIES constants
     - int (length (filter (\<lambda>r. Student_user (Response_student r) = Student_user self)
                      (Response_objects db)))
   \<and> Student_n_left_tries constants
       (db\<lparr>DraftResponse_objects := drafts, DraftAnswer_objects := draft_answers\<rparr>) self
       = Student_n_left_tries constants db self
   \<and> (0 < Student_n_left_tries constants db self
        \<longleftrightarrow> int (length (Student_response_set db self)) < MAX_TRIES constants)"
  by (simp add: Student_n_left_tries_def Student_response_set_def)

section \<open>Page title\<close>

text \<open>
  C10, as amended.  For every template context that holds a request: when the context
  holds constants and the path resolves to a view name that is a key of \<open>ROUTES\<close>, the
  result is that route's title; otherwise, when the context holds a response status, it is
  the status's number, a space and its phrase; otherwise it is the default argument, the
  empty string when not supplied.  Nothing is raised, also for a path that does not
  resolve.
\<close>

theorem current_page_title_priority:
  assumes "Context_request context = Some request"
  shows "(\<forall>constants view_name page.
            Context_constants context = Some constants
          \<and> resolve (HttpRequest_path_info request) = ResolverMatch view_name
          \<and> ROUTES constants view_name = Some page
          \<longrightarrow> current_page_title resolve context default_arg = Inr (PageMeta_title page))
       \<and> (\<not> (\<exists>constants view_name.
                Context_constants context = Some constants
              \<and> resolve (HttpRequest_path_info request) = ResolverMatch view_name
              \<and> view_name \<in> dom (ROUTES constants))
          \<longrightarrow> (\<forall>status. Context_response_status context = Some status
                 \<longrightarrow> current_page_title resolve context default_arg
                     = Inr (str_int (HTTPStatus_value status) @ '' '' @ HTTPStatus_phrase status))
            \<and> (Context_response_status context = None
                 \<longrightarrow> current_page_title resolve context default_arg
                     = Inr (case default_arg of None \<Rightarrow> [] | Some d \<Rightarrow> d)))
       \<and> (\<exists>title. current_page_title resolve context default_arg = Inr title)"
  using assms
  by (auto simp: current_page_title_def route_title_def dom_def
           split: option.splits resolve_outcome.splits)


theorem current_page_title_priority_witness:
  "Context_request example_context = Some \<lparr>HttpRequest_path_info = ''/''\<rparr>
   \<and> current_page_title example_resolve example_context None = Inr ''Home''
   \<and> Context_request not_found_context = Some \<lparr>HttpRequest_path_info = ''/nowhere''\<rparr>
   \<and> current_page_title example_resolve not_found_context None = Inr ''404 Not Found''"
proof -
  have request: "Context_request example_context = Some \<lparr>HttpRequest_path_info = ''/''\<rparr>"
    by (simp add: example_context_def)
  have route: "Context_constants example_context = Some example_constants
      \<and> example_resolve (HttpRequest_path_info \<lparr>HttpRequest_path_info = ''/''\<rparr>)
          = ResolverMatch ''quiz:index''
      \<and> ROUTES example_constants ''quiz:index'' = Some \<lparr>PageMeta_title = ''Home''\<rparr>"
    by (simp add: example_context_def example_resolve_def example_constants_def)
  have home: "current_page_title example_resolve example_context None = Inr ''Home''"
    using current_page_title_priority [OF request, of example_resolve None] route by fastforce
  have request': "Context_request not_found_context = Some \<lparr>HttpRequest_path_info = ''/nowhere''\<rparr>"
    by (simp add: not_found_context_def)
  have no_route: "\<not> (\<exists>constants view_name.
        Context_constants not_found_context = Some constants
      \<and> example_resolve (HttpRequest_path_info \<lparr>HttpRequest_path_info = ''/nowhere''\<rparr>)
          = ResolverMatch view_name
      \<and> view_name \<in> dom (ROUTES constants))"
    by (simp add: example_resolve_def)
  have status: "Context_response_status not_found_context
      = Some \<lparr>HTTPStatus_value = 404, HTTPStatus_phrase = ''Not Found''\<rparr>"
    by (simp add: not_found_context_def)
  have digits: "str_int 404 = ''404''"
    by code_simp
  have "current_page_title example_resolve not_found_context None
      = Inr (str_int (HTTPStatus_value \<lparr>HTTPStatus_value = 404, HTTPStatus_phrase = ''Not Found''\<rparr>)
             @ '' '' @ HTTPStatus_phrase \<lparr>HTTPStatus_value = 404, HTTPStatus_phrase = ''Not Found''\<rparr>)"
    using current_page_title_priority [OF request', of example_resolve None] no_route status
    by blast
  then have not_found: "current_page_title example_resolve not_found_context None = Inr ''404 Not Found''"
    using digits by simp
  from request home request' not_found show ?thesis by blast
qed

text \<open>
  C10 as stated fails for a context without a request: the tag raises \<^verbatim>\<open>KeyError\<close> where
  the claim has it return the default.
\<close>

theorem current_page_title_no_request_counterexample:
  "current_page_title example_resolve empty_context None = Inl KeyError
   \<and> current_page_title example_resolve empty_context None \<noteq> Inr []"
  by (simp add: current_page_title_def empty_context_def)

section \<open>Question selection\<close>

lemma nth_not_in_rest:
  assumes "distinct (map f xs)" and "i < length xs"
  shows "f (xs ! i) \<notin> f ` set (take i xs @ drop (Suc i) xs)"
proof -
  have "xs = take i xs @ xs ! i # drop (Suc i) xs"
    using assms(2) by (rule id_take_nth_drop)
  then have "distinct (map f (take i xs @ xs ! i # drop (Suc i) xs))"
    using assms(1) by simp
  then show ?thesis by auto
qed

lemma rest_distinct:
  assumes "distinct (map f xs)"
  shows "distinct (map f (take i xs @ drop (Suc i) xs))"
proof -
  have "distinct (map f (take i xs @ drop i xs))" using assms by simp
  then have "distinct (map f (take i xs)) \<and> distinct (map f (drop i xs))
      \<and> f ` set (take i xs) \<inter> f ` set (drop i xs) = {}"
    by (simp only: map_append distinct_append set_map) 
  moreover have "distinct (map f (drop (Suc i) xs))"
    using assms by (simp add: distinct_drop flip: drop_map)
  moreover have "set (drop (Suc i) xs) \<subseteq> set (drop i xs)"
    by (metis drop_Suc set_drop_subset tl_drop drop_drop plus_1_eq_Suc)
  ultimately show ?thesis by auto
qed

lemma rest_subset: "set (take i xs @ drop (Suc i) xs) \<subseteq> set xs"
  by (auto dest: in_set_takeD in_set_dropD)

lemma sample_loop_props:
  assumes "k \<le> length xs" and "distinct (map f xs)"
  shows "length (sample_loop rs xs k) = k
       \<and> distinct (map f (sample_loop rs xs k))
       \<and> set (sample_loop rs xs k) \<subseteq> set xs"
  using assms
proof (induction k arbitrary: rs xs)
  case 0
  show ?case by simp
next
  case (Suc k)
  let ?i = "(case rs of [] \<Rightarrow> 0 | r # _ \<Rightarrow> r) mod length xs"
  let ?ys = "take ?i xs @ drop (Suc ?i) xs"
  have ne: "xs \<noteq> []" using Suc.prems(1) by auto
  then have i: "?i < length xs" by simp
  have len: "k \<le> length ?ys" using Suc.prems(1) i by simp
  have dist: "distinct (map f ?ys)" using Suc.prems(2) by (rule rest_distinct)
  note IH = Suc.IH [OF len dist, of "tl rs"]
  have fresh: "f (xs ! ?i) \<notin> f ` set ?ys" using Suc.prems(2) i by (rule nth_not_in_rest)
  have sub: "set ?ys \<subseteq> set xs" by (rule rest_subset)
  have unfold: "sample_loop rs xs (Suc k) = xs ! ?i # sample_loop (tl rs) ?ys k"
    using ne by (simp add: Let_def)
  have head: "xs ! ?i \<in> set xs" using i by simp
  show ?case unfolding unfold using IH fresh sub head by auto
qed


lemma of_category_sample:
  assumes "set drawn \<subseteq> set (of_category c bank)"
  shows "of_category c drawn = drawn" and "c' \<noteq> c \<Longrightarrow> of_category c' drawn = []"
  using assms by (auto simp: of_category_def filter_empty_conv subset_iff)

lemma of_category_append:
  "of_category c (xs @ ys) = of_category c xs @ of_category c ys"
  by (simp add: of_category_def)

lemma of_category_none:
  assumes "\<forall>q\<in>set xs. Question_category q \<in> cs" and "c \<notin> cs"
  shows "of_category c xs = []"
  using assms by (auto simp: of_category_def filter_empty_conv)

lemma draw_props:
  assumes "distinct (map Question_id bank)"
    and "distinct (map fst quotas)"
    and "\<forall>(category, quota)\<in>set quotas. quota \<le> length (of_category category bank)"
  shows "\<exists>drawn. draw rs bank quotas = Inr drawn
       \<and> distinct (map Question_id drawn)
       \<and> set drawn \<subseteq> set bank
       \<and> (\<forall>(category, quota)\<in>set quotas. length (of_category category drawn) = quota)
       \<and> (\<forall>q\<in>set drawn. Question_category q \<in> fst ` set quotas)"
  using assms(2,3)
proof (induction quotas arbitrary: rs)
  case Nil
  show ?case by simp
next
  case (Cons cq quotas)
  obtain c n where cq: "cq = (c, n)" by (cases cq)
  let ?pop = "of_category c bank"
  let ?drawn = "sample_loop rs ?pop n"
  have enough: "n \<le> length ?pop" using Cons.prems(2) cq by simp
  have pop_distinct: "distinct (map Question_id ?pop)"
    using assms(1) by (simp add: of_category_def distinct_map_filter)
  from sample_loop_props [OF enough pop_distinct, of rs]
  have len: "length ?drawn = n"
    and dist: "distinct (map Question_id ?drawn)"
    and sub: "set ?drawn \<subseteq> set ?pop"
    by simp_all
  have sampled: "sample rs ?pop n = Inr ?drawn"
    using enough by (simp add: sample_def)
  have keys: "distinct (map fst quotas)" and fresh: "c \<notin> fst ` set quotas"
    using Cons.prems(1) cq by auto
  have rest_ok: "\<forall>(category, quota)\<in>set quotas. quota \<le> length (of_category category bank)"
    using Cons.prems(2) by simp
  from Cons.IH [OF keys rest_ok, of "drop n rs"]
  obtain rest where rest: "draw (drop n rs) bank quotas = Inr rest"
    and rest_dist: "distinct (map Question_id rest)"
    and rest_sub: "set rest \<subseteq> set bank"
    and rest_quota: "\<forall>(category, quota)\<in>set quotas. length (of_category category rest) = quota"
    and rest_cat: "\<forall>q\<in>set rest. Question_category q \<in> fst ` set quotas"
    by blast
  have result: "draw rs bank (cq # quotas) = Inr (?drawn @ rest)"
    using sampled rest cq by simp
  have drawn_cat: "\<forall>q\<in>set ?drawn. Question_category q = c"
    using sub by (auto simp: of_category_def)
  have drawn_bank: "set ?drawn \<subseteq> set bank"
    using sub by (auto simp: of_category_def)
  have disjoint: "Question_id ` set ?drawn \<inter> Question_id ` set rest = {}"
  proof (rule ccontr)
    assume "Question_id ` set ?drawn \<inter> Question_id ` set rest \<noteq> {}"
    then obtain q q' where q: "q \<in> set ?drawn" and q': "q' \<in> set rest"
      and same: "Question_id q = Question_id q'"
      by auto
    have "q \<in> set bank" and "q' \<in> set bank" using q q' drawn_bank rest_sub by auto
    then have "q = q'" using assms(1) same by (auto simp: distinct_map inj_on_def)
    then have "c \<in> fst ` set quotas" using drawn_cat rest_cat q q' by auto
    with fresh show False by simp
  qed
  have all_dist: "distinct (map Question_id (?drawn @ rest))"
    using dist rest_dist disjoint by simp
  have all_sub: "set (?drawn @ rest) \<subseteq> set bank"
    using drawn_bank rest_sub by simp
  have this_quota: "length (of_category c (?drawn @ rest)) = n"
    using of_category_sample(1) [OF sub] of_category_none [OF rest_cat fresh] len
    by (simp add: of_category_append)
  have other_quota: "\<forall>(category, quota)\<in>set quotas.
      length (of_category category (?drawn @ rest)) = quota"
  proof (clarify)
    fix c' n' assume in_q: "(c', n') \<in> set quotas"
    then have "c' \<noteq> c" using fresh by force
    then have "of_category c' ?drawn = []" using of_category_sample(2) [OF sub] by simp
    then show "length (of_category c' (?drawn @ rest)) = n'"
      using rest_quota in_q by (auto simp: of_category_append)
  qed
  have all_cat: "\<forall>q\<in>set (?drawn @ rest). Question_category q \<in> fst ` set (cq # quotas)"
    using drawn_cat rest_cat cq by auto
  show ?case
    unfolding result using all_dist all_sub this_quota other_quota all_cat cq by simp
qed

lemma draw_fails_iff:
  "(\<exists>e. draw rs bank quotas = Inl e)
     \<longleftrightarrow> (\<exists>(category, quota)\<in>set quotas. length (of_category category bank) < quota)"
proof (induction quotas arbitrary: rs)
  case Nil
  show ?case by simp
next
  case (Cons cq quotas)
  obtain c n where cq: "cq = (c, n)" by (cases cq)
  show ?case
  proof (cases "length (of_category c bank) < n")
    case True
    then show ?thesis using cq by (simp add: sample_def)
  next
    case False
    then have "(\<exists>e. draw rs bank (cq # quotas) = Inl e)
        \<longleftrightarrow> (\<exists>e. draw (drop n rs) bank quotas = Inl e)"
      using cq by (simp add: sample_def split: sum.splits)
    then show ?thesis using Cons.IH [of "drop n rs"] False cq by simp
  qed
qed

lemma draw_error:
  "draw rs bank quotas = Inl e \<Longrightarrow> e = InsufficientPopulationError"
  by (induction quotas arbitrary: rs) (auto simp: sample_def split: sum.splits if_splits)

text \<open>
  C2.  When the questions of the bank have distinct identities, the quotas are a
  dictionary and the bank has, for every category, at least the quota of questions, the
  draw succeeds whatever the random source; the drawn questions are questions of the
  bank without a duplicate, within or across categories, and for every category of the
  quotas exactly the quota of them are of that category (and none is of another
  category).
\<close>

theorem draw_meets_quotas:
  assumes "distinct (map Question_id bank)"
    and "distinct (map fst quotas)"
    and "\<forall>(category, quota)\<in>set quotas. quota \<le> length (of_category category bank)"
  shows "\<exists>drawn. draw rs bank quotas = Inr drawn
       \<and> distinct (map Question_id drawn)
       \<and> set drawn \<subseteq> set bank
       \<and> (\<forall>(category, quota)\<in>set quotas. length (of_category category drawn) = quota)
       \<and> (\<forall>q\<in>set drawn. Question_category q \<in> fst ` set quotas)"
  using assms by (rule draw_props)

theorem draw_meets_quotas_witness:
  "distinct (map Question_id example_bank)
   \<and> distinct (map fst example_quotas)
   \<and> 2 \<le> length (of_category RADIO example_bank)
   \<and> 1 \<le> length (of_category BINARY example_bank)
   \<and> (\<exists>drawn. draw [5, 3, 1] example_bank example_quotas = Inr drawn
         \<and> distinct (map Question_id drawn)
         \<and> length (of_category RADIO drawn) = 2
         \<and> length (of_category BINARY drawn) = 1)"
proof -
  have ids: "distinct (map Question_id example_bank)"
    by (simp add: example_bank_def question_1_def question_2_def question_3_def)
  have keys: "distinct (map fst example_quotas)"
    by (simp add: example_quotas_def RADIO_def BINARY_def)
  have radio: "2 \<le> length (of_category RADIO example_bank)"
    and binary: "1 \<le> length (of_category BINARY example_bank)"
    by (simp_all add: of_category_def example_bank_def question_1_def question_2_def
        question_3_def RADIO_def BINARY_def)
  have enough: "\<forall>(category, quota)\<in>set example_quotas.
      quota \<le> length (of_category category example_bank)"
    using radio binary by (simp add: example_quotas_def)
  from draw_meets_quotas [OF ids keys enough, of "[5, 3, 1]"]
  obtain drawn where "draw [5, 3, 1] example_bank example_quotas = Inr drawn"
    and "distinct (map Question_id drawn)"
    and "\<forall>(category, quota)\<in>set example_quotas. length (of_category category drawn) = quota"
    by blast
  then have "draw [5, 3, 1] example_bank example_quotas = Inr drawn
      \<and> distinct (map Question_id drawn)
      \<and> length (of_category RADIO drawn) = 2
      \<and> length (of_category BINARY drawn) = 1"
    by (simp add: example_quotas_def)
  with ids keys radio binary show ?thesis by blast
qed

text \<open>
  C8.  The draw fails, and then with \<open>InsufficientPopulationError\<close>, exactly when the bank has
  fewer questions of some category than that category's quota; on an empty bank with a
  quota of one it fails.
\<close>

theorem draw_fails_iff_insufficient:
  "(draw rs bank quotas = Inl InsufficientPopulationError
      \<longleftrightarrow> (\<exists>(category, quota)\<in>set quotas. length (of_category category bank) < quota))
   \<and> ((\<exists>e. draw rs bank quotas = Inl e)
      \<longleftrightarrow> draw rs bank quotas = Inl InsufficientPopulationError)
   \<and> draw rs [] [(RADIO, 1)] = Inl InsufficientPopulationError"
proof -
  have only: "(\<exists>e. draw rs bank quotas = Inl e)
      \<longleftrightarrow> draw rs bank quotas = Inl InsufficientPopulationError"
    using draw_error by blast
  have empty: "draw rs [] [(RADIO, 1)] = Inl InsufficientPopulationError"
    by (simp add: sample_def of_category_def)
  show ?thesis using only empty draw_fails_iff [of rs bank quotas] by simp
qed

section \<open>Updates and the deadline\<close>

text \<open>
  C6.  A draft is expired exactly when the clock is strictly after its deadline, and it is
  not at the deadline instant itself.  For a student whose draft's deadline is strictly
  in the past, every update call fails with an error classified as Forbidden and leaves
  the database as it was; at the deadline instant an update does not fail for expiry, and
  does what it does at any earlier instant.
\<close>

theorem update_after_deadline_forbidden:
  "(DraftResponse_outdated now draft \<longleftrightarrow> DraftResponse_deadline draft < now)
   \<and> \<not> DraftResponse_outdated (DraftResponse_deadline draft) draft
   \<and> (Student_draft_response db student = Some draft \<and> DraftResponse_deadline draft < now
        \<longrightarrow> (\<exists>e. update choices now student questionId choiceIdOrNone db = (Inl e, db)
                 \<and> classify e = Forbidden))
   \<and> (Student_draft_response db student = Some draft
        \<longrightarrow> fst (update choices (DraftResponse_deadline draft) student questionId choiceIdOrNone db)
              \<noteq> Inl ExpiredError)
   \<and> (Student_draft_response db student = Some draft \<and> now \<le> DraftResponse_deadline draft
        \<longrightarrow> update choices (DraftResponse_deadline draft) student questionId choiceIdOrNone db
              = update choices now student questionId choiceIdOrNone db)"
  by (auto simp: update_def DraftResponse_outdated_def
           split: option.splits parsed.splits)

theorem update_after_deadline_forbidden_witness:
  "Student_draft_response example_db example_student = Some example_draft
   \<and> DraftResponse_deadline example_draft < 101
   \<and> (\<exists>e. update example_choices 101 example_student (WellFormed 3) (WellFormed (Some 3))
             example_db = (Inl e, example_db)
          \<and> classify e = Forbidden)
   \<and> fst (update example_choices 100 example_student (WellFormed 3) (WellFormed (Some 3))
            example_db) = Inr ()"
proof -
  have draft: "Student_draft_response example_db example_student = Some example_draft"
    by (simp add: Student_draft_response_def example_db_def example_draft_def)
  have late: "DraftResponse_deadline example_draft < 101"
    by (simp add: example_draft_def)
  have refused: "\<exists>e. update example_choices 101 example_student (WellFormed 3)
        (WellFormed (Some 3)) example_db = (Inl e, example_db) \<and> classify e = Forbidden"
    using update_after_deadline_forbidden
      [of 101 example_draft example_db example_student example_choices
          "WellFormed 3" "WellFormed (Some 3)"]
      draft late
    by blast
  have in_time: "fst (update example_choices 100 example_student (WellFormed 3)
        (WellFormed (Some 3)) example_db) = Inr ()"
    unfolding update_def draft
    by (simp add: DraftResponse_outdated_def targets_def example_choices_def example_defs)
  from draft late refused in_time show ?thesis by blast
qed

end
